theory Spec2Isabelle
  imports Complex_Main
begin

section \<open>Matrices as lists of rows\<close>

text \<open>
  The numpy arrays of the two scripts are modelled as lists (vectors) and lists of rows
  (matrices) over the reals: arithmetic is exact, rounding is not modelled.
\<close>

type_synonym vec = "real list"
type_synonym matrix = "real list list"

datatype py_error =
    RecursionError
  | DiscretizationException
  | AssertionError
  | IndexError
  | ValueError string
  | NameError string

definition zeros :: "nat \<Rightarrow> nat \<Rightarrow> matrix" where
  \<comment> \<open>\<open>np.zeros((r, c))\<close>\<close>
  "zeros r c = replicate r (replicate c 0)"

definition hstack :: "matrix \<Rightarrow> matrix \<Rightarrow> matrix" where
  "hstack A B = map2 (@) A B"

definition block :: "matrix \<Rightarrow> matrix \<Rightarrow> matrix \<Rightarrow> matrix \<Rightarrow> matrix" where
  \<comment> \<open>\<open>np.block([[A, B], [C, D]])\<close>\<close>
  "block A B C D = hstack A B @ hstack C D"

definition smul :: "real \<Rightarrow> matrix \<Rightarrow> matrix" where
  "smul c A = map (map ((*) c)) A"

definition madd :: "matrix \<Rightarrow> matrix \<Rightarrow> matrix" where
  "madd A B = map2 (map2 (+)) A B"

definition halve_interior :: "matrix \<Rightarrow> matrix" where
  \<comment> \<open>\<open>P[1:-1] /= 2\<close>: every row but the first and the last is divided by 2\<close>
  "halve_interior P =
     map (\<lambda>(i, r). if 1 \<le> i \<and> i + 1 < length P then map (\<lambda>x. x / 2) r else r)
       (enumerate 0 P)"

section \<open>Rouwenhorst's method (ps1\_3cd.py)\<close>

text \<open>
  \<^verbatim>\<open>rouwenhorst(N, p)\<close> returns the base case at \<open>N = 2\<close> and otherwise recurses on
  \<open>N - 1\<close>. Below 2 the recursion never reaches the base case and Python stops it with
  a RecursionError, which is the \<open>Inl\<close> branch here.
\<close>

definition rouwenhorst_blocks :: "real \<Rightarrow> matrix \<Rightarrow> nat \<Rightarrow> matrix" where
  \<comment> \<open>the weighted sum of the four \<open>np.block\<close> paddings of \<open>P_prev\<close>; \<open>n\<close> is \<open>N - 1\<close>\<close>
  "rouwenhorst_blocks p P_prev n =
     madd (madd (madd
       (smul p (block P_prev (zeros n 1) (zeros 1 n) (zeros 1 1)))
       (smul (1 - p) (block (zeros n 1) P_prev (zeros 1 n) (zeros 1 1))))
       (smul (1 - p) (block (zeros 1 1) (zeros 1 n) P_prev (zeros n 1))))
       (smul p (block (zeros 1 1) (zeros 1 n) (zeros n 1) P_prev))"

function rouwenhorst :: "int \<Rightarrow> real \<Rightarrow> py_error + matrix" where
  "rouwenhorst N p =
     (if N = 2 then Inr [[p, 1 - p], [1 - p, p]]
      else if N < 2 then Inl RecursionError
      else (case rouwenhorst (N - 1) p of
              Inl e \<Rightarrow> Inl e
            | Inr P_prev \<Rightarrow>
                Inr (halve_interior (rouwenhorst_blocks p P_prev (nat (N - 1))))))"
  by pat_completeness auto
termination
  by (relation "measure (\<lambda>(N, p). nat N)") auto

declare rouwenhorst.simps [simp del]

text \<open>Row-wise bookkeeping: a row of length \<open>c\<close> with sum \<open>s\<close> and no negative entry.\<close>

definition row_ok :: "nat \<Rightarrow> real \<Rightarrow> vec \<Rightarrow> bool" where
  "row_ok c s r = (length r = c \<and> sum_list r = s \<and> (\<forall>k<c. 0 \<le> r ! k))"

definition rows_ok :: "nat \<Rightarrow> (nat \<Rightarrow> real) \<Rightarrow> matrix \<Rightarrow> bool" where
  "rows_ok n s M = (length M = n \<and> (\<forall>i<n. row_ok n (s i) (M ! i)))"


section \<open>Tauchen's method (ps1\_5de.py, model.py part)\<close>

text \<open>
  \<^verbatim>\<open>numpy.linspace(start, stop, num, endpoint=True, retstep=True)\<close>: the step is
  \<open>(stop - start) / (num - 1)\<close>, point \<open>i\<close> is \<open>start + i * step\<close>, and the last point
  is overwritten with \<open>stop\<close> when \<open>num > 1\<close>. The callers assert \<open>num > 3\<close> (\<open>Alen\<close>) and
  \<open>num > 5\<close> (\<open>klen\<close>), so the division by \<open>num - 1\<close> is never by zero on their inputs.
\<close>

definition linspace :: "real \<Rightarrow> real \<Rightarrow> nat \<Rightarrow> vec \<times> real" where
  "linspace start stop num =
     (let step = (stop - start) / real (num - 1);
          y = map (\<lambda>i. start + real i * step) [0..<num]
      in (if 1 < num then y[num - 1 := stop] else y, step))"

text \<open>
  \<^verbatim>\<open>scipy.stats.norm.cdf(x, loc, scale)\<close> is the standard normal distribution function
  at \<open>(x - loc) / scale\<close> (the comment of the source says so too). The standard normal
  distribution function itself is the parameter \<open>Phi\<close> of the model.
\<close>

definition norm_cdf :: "(real \<Rightarrow> real) \<Rightarrow> real \<Rightarrow> real \<Rightarrow> real \<Rightarrow> real" where
  "norm_cdf Phi x loc scale = Phi ((x - loc) / scale)"

definition count_nonzero :: "bool list \<Rightarrow> nat" where
  "count_nonzero bs = length (filter (\<lambda>b. b) bs)"

definition tauchen_grid :: "real \<Rightarrow> real \<Rightarrow> real \<Rightarrow> nat \<Rightarrow> real \<Rightarrow> vec \<times> real" where
  \<comment> \<open>the section "Construct equally spaced grid" of \<open>tauchen\<close>\<close>
  "tauchen_grid mu rho sigma N m =
     (let ar_mean = mu / (1 - rho);
          ar_sd = sigma / sqrt (1 - rho\<^sup>2);
          y1 = ar_mean - m * ar_sd;
          yn = ar_mean + m * ar_sd
      in linspace y1 yn N)"

definition tauchen_pmat ::
  "(real \<Rightarrow> real) \<Rightarrow> real \<Rightarrow> real \<Rightarrow> real \<Rightarrow> nat \<Rightarrow> vec \<Rightarrow> real \<Rightarrow> matrix" where
  \<comment> \<open>row \<open>j\<close> is the state this period; the first and the last column are overwritten,
      in this order, after the interior formula has filled every column\<close>
  "tauchen_pmat Phi mu rho sigma N y d =
     map (\<lambda>j.
        list_update
          (list_update
            (map (\<lambda>k. norm_cdf Phi (y ! k) ((mu + rho * (y ! j)) - d / 2) sigma
                     - norm_cdf Phi (y ! k) ((mu + rho * (y ! j)) + d / 2) sigma) [0..<N])
            0 (norm_cdf Phi (y ! 0) (mu + rho * (y ! j) - d / 2) sigma))
          (N - 1) (1 - norm_cdf Phi (y ! (N - 1)) (mu + rho * (y ! j) + d / 2) sigma))
       [0..<N]"

definition tauchen_output :: "vec \<Rightarrow> matrix \<Rightarrow> py_error + vec \<times> matrix" where
  \<comment> \<open>the section "Output": the only check is the floor on the row sums\<close>
  "tauchen_output y pmat =
     (if count_nonzero (map (\<lambda>row. sum_list row < 0.999999) pmat) > 0
      then Inl DiscretizationException
      else Inr (y, pmat))"

definition tauchen ::
  "(real \<Rightarrow> real) \<Rightarrow> real \<Rightarrow> real \<Rightarrow> real \<Rightarrow> nat \<Rightarrow> real \<Rightarrow> py_error + vec \<times> matrix" where
  \<comment> \<open>with no state (\<open>N = 0\<close>) the read of \<open>y[0]\<close> raises IndexError\<close>
  "tauchen Phi mu rho sigma N m =
     (if N = 0 then Inl IndexError
      else (let (y, d) = tauchen_grid mu rho sigma N m
            in tauchen_output y (tauchen_pmat Phi mu rho sigma N y d)))"




section \<open>The discretization-and-simulation script (ps1\_3cd.py)\<close>

subsection \<open>The state space of the script\<close>

definition state_space :: "nat \<Rightarrow> real \<Rightarrow> real \<Rightarrow> vec" where
  \<comment> \<open>lines 37 to 42 (and 77 to 82): the intercept 0.5 is written into the script\<close>
  "state_space N gamma1 sigma_epsilon =
     (let mu = 0.5 / (1 - gamma1);
          sigma_y = sigma_epsilon / sqrt (1 - gamma1\<^sup>2);
          c = sqrt (real (N - 1))
      in fst (linspace (mu - c * sigma_y) (mu + c * sigma_y) N))"

definition y_085 :: vec where
  \<comment> \<open>\<open>N = 7\<close>, \<open>gamma1 = 0.85\<close>, \<open>sigma_epsilon = 1\<close>\<close>
  "y_085 = state_space 7 0.85 1"

definition P_085 :: "py_error + matrix" where
  \<comment> \<open>\<open>p = (1 + gamma1) / 2\<close>, \<open>P = rouwenhorst(N, p)\<close>\<close>
  "P_085 = rouwenhorst 7 ((1 + 0.85) / 2)"

subsection \<open>Drawing a state\<close>

text \<open>
  \<^verbatim>\<open>np.random.choice(N, p=row)\<close> refuses a probability vector of the wrong length, with
  a negative entry, or whose sum is farther from 1 than its tolerance (about
  \<open>1.5e-8\<close>); otherwise it draws a uniform number \<open>u\<close> in [0, 1) and returns the place
  where \<open>u\<close> is inserted, to the right of equal entries, into the cumulative sums
  divided by their last entry. The uniform numbers are an input of the model: \<open>us t\<close>
  is the number drawn at step \<open>t\<close>.
\<close>

definition cumsum :: "vec \<Rightarrow> vec" where
  "cumsum p = map (\<lambda>i. sum_list (take (Suc i) p)) [0..<length p]"

definition searchsorted_right :: "vec \<Rightarrow> real \<Rightarrow> nat" where
  "searchsorted_right cdf u = length (filter (\<lambda>c. c \<le> u) cdf)"

definition choice_p :: "nat \<Rightarrow> vec \<Rightarrow> real \<Rightarrow> py_error + nat" where
  "choice_p N p u =
     (if length p \<noteq> N \<or> N = 0 \<or> (\<exists>x \<in> set p. x < 0) \<or> \<bar>sum_list p - 1\<bar> > 15 / 10 ^ 9
      then Inl (ValueError ''probabilities are not a distribution'')
      else Inr (searchsorted_right (map (\<lambda>c. c / last (cumsum p)) (cumsum p)) u))"

subsection \<open>The simulator with a fixed start\<close>

primrec chain_states :: "nat \<Rightarrow> matrix \<Rightarrow> (nat \<Rightarrow> real) \<Rightarrow> nat \<Rightarrow> py_error + nat list" where
  \<comment> \<open>\<open>states[0] = 0\<close>, then \<open>states[t] = choice(N, p=P[states[t - 1]])\<close> for \<open>t = 1, 2, ...\<close>\<close>
  "chain_states N P us 0 = Inr [0]"
| "chain_states N P us (Suc t) =
     (case chain_states N P us t of
        Inl e \<Rightarrow> Inl e
      | Inr states \<Rightarrow>
          (if length P \<le> last states then Inl IndexError
           else (case choice_p N (P ! last states) (us (Suc t)) of
                   Inl e \<Rightarrow> Inl e
                 | Inr s \<Rightarrow> Inr (states @ [s]))))"

definition simulate_markov_chain_fixed_start ::
  "vec \<Rightarrow> matrix \<Rightarrow> nat \<Rightarrow> (nat \<Rightarrow> real) \<Rightarrow> py_error + vec" where
  \<comment> \<open>\<open>states\<close> has \<open>T\<close> entries, so \<open>states[0] = 0\<close> fails when \<open>T = 0\<close>; the result is
      \<open>y[states]\<close>\<close>
  "simulate_markov_chain_fixed_start y P T us =
     (if T = 0 then Inl IndexError
      else (case chain_states (length y) P us (T - 1) of
              Inl e \<Rightarrow> Inl e
            | Inr states \<Rightarrow>
                (if \<exists>s \<in> set states. length y \<le> s then Inl IndexError
                 else Inr (map (\<lambda>s. y ! s) states))))"

subsection \<open>Name binding at module level\<close>

text \<open>
  A module is run statement by statement from the top. A statement first reads names
  (in the order Python evaluates them) and then binds names; reading a name that no
  earlier statement has bound, and that is not a builtin, raises NameError and stops
  the run. A \<^verbatim>\<open>def\<close> binds its name and reads nothing: its body is read only when the
  function is called. Each statement carries its line in the file and whether it
  produces simulation output (a simulated path or a plot of one). Calls into numpy,
  pandas and matplotlib are taken to succeed.
\<close>

record stmt =
  line :: nat
  reads :: "string list"
  binds :: "string list"
  sim_output :: bool

definition builtins :: "string list" where
  "builtins = [''range'', ''print'', ''len'', ''int'']"

fun run_module :: "string list \<Rightarrow> stmt list \<Rightarrow> stmt list \<times> py_error option" where
  \<comment> \<open>the statements executed without error, and the error that stopped the run, if any\<close>
  "run_module ns [] = ([], None)"
| "run_module ns (s # ss) =
     (case find (\<lambda>n. n \<notin> set ns) (reads s) of
        Some n \<Rightarrow> ([], Some (NameError n))
      | None \<Rightarrow> (let (done, r) = run_module (binds s @ ns) ss in (s # done, r)))"

definition script_3cd :: "stmt list" where
  \<comment> \<open>ps1\_3cd.py; the loop of line 76 is unrolled once: its header reads \<open>gamma_values\<close>
      and binds \<open>gamma1\<close>, its body follows\<close>
  "script_3cd =
   [\<lparr>line = 8, reads = [], binds = [''np''], sim_output = False\<rparr>,
    \<lparr>line = 9, reads = [], binds = [''pd''], sim_output = False\<rparr>,
    \<lparr>line = 10, reads = [], binds = [''plt''], sim_output = False\<rparr>,
    \<lparr>line = 13, reads = [], binds = [''rouwenhorst''], sim_output = False\<rparr>,
    \<lparr>line = 34, reads = [], binds = [''N''], sim_output = False\<rparr>,
    \<lparr>line = 35, reads = [], binds = [''gamma1''], sim_output = False\<rparr>,
    \<lparr>line = 36, reads = [], binds = [''sigma_epsilon''], sim_output = False\<rparr>,
    \<lparr>line = 37, reads = [''gamma1''], binds = [''mu''], sim_output = False\<rparr>,
    \<lparr>line = 38, reads = [''sigma_epsilon'', ''np'', ''gamma1''], binds = [''sigma_y''],
      sim_output = False\<rparr>,
    \<lparr>line = 39, reads = [''np'', ''N''], binds = [''c''], sim_output = False\<rparr>,
    \<lparr>line = 42, reads = [''np'', ''mu'', ''c'', ''sigma_y'', ''N''], binds = [''y''],
      sim_output = False\<rparr>,
    \<lparr>line = 45, reads = [''gamma1''], binds = [''p''], sim_output = False\<rparr>,
    \<lparr>line = 46, reads = [''rouwenhorst'', ''N'', ''p'', ''np''], binds = [''P''],
      sim_output = False\<rparr>,
    \<lparr>line = 49, reads = [''pd'', ''P'', ''range'', ''N''], binds = [''tm_085''],
      sim_output = False\<rparr>,
    \<lparr>line = 50, reads = [''tm_085'', ''np'', ''y''], binds = [], sim_output = False\<rparr>,
    \<lparr>line = 51, reads = [''tm_085''], binds = [], sim_output = False\<rparr>,
    \<lparr>line = 53, reads = [''print''], binds = [], sim_output = False\<rparr>,
    \<lparr>line = 54, reads = [''print'', ''y''], binds = [], sim_output = False\<rparr>,
    \<lparr>line = 55, reads = [''print''], binds = [], sim_output = False\<rparr>,
    \<lparr>line = 56, reads = [''print'', ''tm_085''], binds = [], sim_output = False\<rparr>,
    \<lparr>line = 57, reads = [''np'', ''y''], binds = [], sim_output = False\<rparr>,
    \<lparr>line = 58, reads = [''np'', ''P''], binds = [], sim_output = False\<rparr>,
    \<lparr>line = 60, reads = [''np''], binds = [''y''], sim_output = False\<rparr>,
    \<lparr>line = 61, reads = [''np''], binds = [''P''], sim_output = False\<rparr>,
    \<lparr>line = 64, reads = [], binds = [''T''], sim_output = False\<rparr>,
    \<lparr>line = 65, reads = [''simulate_markov_chain_fixed_start'', ''y'', ''P'', ''T''],
      binds = [''sim_data_fixed_start''], sim_output = True\<rparr>,
    \<lparr>line = 68, reads = [''plt''], binds = [], sim_output = True\<rparr>,
    \<lparr>line = 69, reads = [''plt'', ''range'', ''T'', ''sim_data_fixed_start'', ''gamma1''],
      binds = [], sim_output = True\<rparr>,
    \<lparr>line = 70, reads = [''plt''], binds = [], sim_output = True\<rparr>,
    \<lparr>line = 71, reads = [''plt''], binds = [], sim_output = True\<rparr>,
    \<lparr>line = 72, reads = [''plt''], binds = [], sim_output = True\<rparr>,
    \<lparr>line = 73, reads = [''plt''], binds = [], sim_output = True\<rparr>,
    \<lparr>line = 76, reads = [''gamma_values''], binds = [''gamma1''], sim_output = False\<rparr>,
    \<lparr>line = 77, reads = [''gamma1''], binds = [''mu''], sim_output = False\<rparr>,
    \<lparr>line = 78, reads = [''sigma_epsilon'', ''np'', ''gamma1''], binds = [''sigma_y''],
      sim_output = False\<rparr>,
    \<lparr>line = 79, reads = [''np'', ''N''], binds = [''c''], sim_output = False\<rparr>,
    \<lparr>line = 82, reads = [''np'', ''mu'', ''c'', ''sigma_y'', ''N''], binds = [''y''],
      sim_output = False\<rparr>,
    \<lparr>line = 85, reads = [''gamma1''], binds = [''p''], sim_output = False\<rparr>,
    \<lparr>line = 86, reads = [''rouwenhorst'', ''N'', ''p'', ''np''], binds = [''P''],
      sim_output = False\<rparr>,
    \<lparr>line = 89, reads = [], binds = [''simulate_markov_chain_fixed_start''],
      sim_output = False\<rparr>,
    \<lparr>line = 106, reads = [''simulate_markov_chain_fixed_start'', ''y'', ''P'', ''T'', ''seed'',
        ''np'', ''len'', ''int'', ''range''],
      binds = [''sim_data''], sim_output = True\<rparr>,
    \<lparr>line = 109, reads = [''plt'', ''range'', ''T'', ''sim_data'', ''gamma1''], binds = [],
      sim_output = True\<rparr>,
    \<lparr>line = 111, reads = [''plt''], binds = [], sim_output = True\<rparr>,
    \<lparr>line = 112, reads = [''plt''], binds = [], sim_output = True\<rparr>,
    \<lparr>line = 113, reads = [''plt''], binds = [], sim_output = True\<rparr>,
    \<lparr>line = 114, reads = [''plt''], binds = [], sim_output = True\<rparr>,
    \<lparr>line = 115, reads = [''plt''], binds = [], sim_output = True\<rparr>]"

section \<open>Array values with infinities (ps1\_5de.py)\<close>

text \<open>
  The solver stores \<open>-inf\<close> in its value tables on purpose and runs under
  \<^verbatim>\<open>seterr(all='ignore')\<close>, so a division by zero or a power of zero yields an infinity
  and an undefined operation yields \<open>nan\<close> instead of raising. An array value is
  therefore a real number or one of the three special values. Finite arithmetic is
  exact: rounding, overflow and the sign of zero are not modelled.
\<close>

datatype fval = Fin real | PInf | MInf | NaN

fun fneg :: "fval \<Rightarrow> fval" where
  "fneg (Fin a) = Fin (- a)"
| "fneg PInf = MInf"
| "fneg MInf = PInf"
| "fneg NaN = NaN"

fun fadd :: "fval \<Rightarrow> fval \<Rightarrow> fval" where
  "fadd NaN y = NaN"
| "fadd x NaN = NaN"
| "fadd (Fin a) (Fin b) = Fin (a + b)"
| "fadd PInf MInf = NaN"
| "fadd MInf PInf = NaN"
| "fadd PInf y = PInf"
| "fadd MInf y = MInf"
| "fadd x PInf = PInf"
| "fadd x MInf = MInf"

definition fsub :: "fval \<Rightarrow> fval \<Rightarrow> fval" where
  "fsub x y = fadd x (fneg y)"








fun flt :: "fval \<Rightarrow> fval \<Rightarrow> bool" where
  \<comment> \<open>\<open>x < y\<close>; every comparison with \<open>nan\<close> is false\<close>
  "flt (Fin a) (Fin b) = (a < b)"
| "flt MInf (Fin b) = True"
| "flt MInf PInf = True"
| "flt (Fin a) PInf = True"
| "flt x y = False"




definition clamp0 :: "fval \<Rightarrow> fval" where
  \<comment> \<open>\<open>c[c < 0.0] = 0.0\<close>, for one entry\<close>
  "clamp0 c = (if flt c (Fin 0) then Fin 0 else c)"






section \<open>The model: parameters, utility, grids (ps1\_5de.py, model.py part)\<close>

text \<open>
  The namespace \<open>par\<close> of the source is a record; field \<open>par_x\<close> is \<open>par.x\<close>. The keyword
  arguments of the method \<open>setup\<close> overwrite defaults before the assertions, so its model
  \<open>planner_setup\<close> takes the record as it stands after that loop and fills in the three grids.
\<close>

record par =
  par_beta :: real
  par_sigma :: real
  par_gamma :: real
  par_nu :: real
  par_alpha :: real
  par_delta :: real
  par_sigma_eps :: real
  par_rho :: real
  par_mu :: real
  par_seed_sim :: nat
  par_T :: nat
  par_kss :: real
  par_klen :: nat
  par_kmax :: real
  par_kmin :: real
  par_Alen :: nat
  par_m :: real
  par_kgrid :: vec
  par_Agrid :: vec
  par_pmat :: matrix




definition asserts_ok :: "par \<Rightarrow> bool" where
  \<comment> \<open>the assertions of \<open>setup\<close> on numbers (those on the two paths are left out)\<close>
  "asserts_ok P =
     (0 < par_beta P \<and> par_beta P < 1 \<and> 1 \<le> par_sigma P \<and> 0 < par_gamma P \<and> 0 < par_nu P
      \<and> 0 < par_alpha P \<and> par_alpha P < 1 \<and> 0 \<le> par_delta P \<and> par_delta P \<le> 1
      \<and> 0 < par_sigma_eps P \<and> \<bar>par_rho P\<bar> < 1 \<and> 3 < par_Alen P \<and> 0 < par_m P
      \<and> 5 < par_klen P \<and> par_kmin P < par_kmax P)"

definition planner_setup :: "(real \<Rightarrow> real) \<Rightarrow> par \<Rightarrow> py_error + par" where
  \<comment> \<open>the method \<open>setup\<close> of the class \<open>planner\<close>\<close>
  "planner_setup Phi P =
     (if \<not> asserts_ok P then Inl AssertionError
      else (case tauchen Phi (par_mu P) (par_rho P) (par_sigma_eps P) (par_Alen P) (par_m P) of
              Inl e \<Rightarrow> Inl e
            | Inr (Agrid, pmat) \<Rightarrow>
                Inr (P\<lparr>par_kgrid := fst (linspace (par_kmin P) (par_kmax P) (par_klen P)),
                       par_Agrid := map exp Agrid,
                       par_pmat := pmat\<rparr>)))"

definition wf_par :: "par \<Rightarrow> bool" where
  \<comment> \<open>the shapes that \<open>setup\<close> establishes, and grids without repeated points\<close>
  "wf_par P =
     (5 < par_klen P \<and> 3 < par_Alen P
      \<and> length (par_kgrid P) = par_klen P \<and> distinct (par_kgrid P)
      \<and> length (par_Agrid P) = par_Alen P
      \<and> length (par_pmat P) = par_Alen P
      \<and> (\<forall>j < par_Alen P. length (par_pmat P ! j) = par_Alen P))"

section \<open>The solver (ps1\_5de.py, solve.py part)\<close>




















subsection \<open>The value tables of the iteration, one by one\<close>





section \<open>The simulator (ps1\_5de.py, simulate.py part)\<close>

subsection \<open>Matrix power and cumulative rows\<close>






subsection \<open>Random numbers\<close>

text \<open>
  The generator is seeded once; the numbers it then hands out are the input \<open>draws\<close>:
  the uniform number behind the draw of the first productivity state, the one behind
  the uniform draw of the first capital state, and \<open>u_next j\<close>, the value of
  \<^verbatim>\<open>rand(1)\<close> at the end of period \<open>j\<close>.
\<close>

record draws =
  u_A0 :: real
  u_k0 :: real
  u_next :: "nat \<Rightarrow> real"




subsection \<open>One period\<close>




subsection \<open>The path\<close>





definition uniform_draws :: "draws \<Rightarrow> bool" where
  \<comment> \<open>every number handed out by the generator lies in [0, 1)\<close>
  "uniform_draws D =
     (0 \<le> u_A0 D \<and> u_A0 D < 1 \<and> 0 \<le> u_k0 D \<and> u_k0 D < 1
      \<and> (\<forall>j. 0 \<le> u_next D j \<and> u_next D j < 1))"

subsection \<open>The budget of a cell and of a period\<close>




section \<open>Concrete inputs\<close>



section \<open>Rouwenhorst: the matrix is row-stochastic\<close>

lemma hstack_nth: "i < length A \<Longrightarrow> i < length B \<Longrightarrow> hstack A B ! i = A ! i @ B ! i"
  by (simp add: hstack_def)

lemma length_hstack: "length (hstack A B) = min (length A) (length B)"
  by (simp add: hstack_def)

lemma length_block:
  "length (block A B C D) = min (length A) (length B) + min (length C) (length D)"
  by (simp add: block_def length_hstack)

lemma block_top:
  "length A = r \<Longrightarrow> length B = r \<Longrightarrow> i < r \<Longrightarrow> block A B C D ! i = A ! i @ B ! i"
  by (simp add: block_def nth_append length_hstack hstack_nth)

lemma block_bot:
  "length A = r \<Longrightarrow> length B = r \<Longrightarrow> length C = s \<Longrightarrow> length D = s \<Longrightarrow> i < s \<Longrightarrow>
   block A B C D ! (r + i) = C ! i @ D ! i"
  by (simp add: block_def nth_append length_hstack hstack_nth)

lemma length_zeros: "length (zeros r c) = r"
  by (simp add: zeros_def)

lemma zeros_nth: "i < r \<Longrightarrow> zeros r c ! i = replicate c 0"
  by (simp add: zeros_def)

lemma smul_nth: "i < length A \<Longrightarrow> smul x A ! i = map ((*) x) (A ! i)"
  by (simp add: smul_def)

lemma length_smul: "length (smul x A) = length A"
  by (simp add: smul_def)

lemma madd_nth: "i < length A \<Longrightarrow> i < length B \<Longrightarrow> madd A B ! i = map2 (+) (A ! i) (B ! i)"
  by (simp add: madd_def)

lemma length_madd: "length (madd A B) = min (length A) (length B)"
  by (simp add: madd_def)

lemma sum_list_map2_add:
  "length xs = length ys \<Longrightarrow> sum_list (map2 (+) xs ys) = sum_list xs + (sum_list ys :: real)"
  by (induction xs ys rule: list_induct2) auto

lemma sum_list_scale: "sum_list (map ((*) c) xs) = c * (sum_list xs :: real)"
  by (induction xs) (auto simp: algebra_simps)

lemma sum_list_half: "sum_list (map (\<lambda>x. x / 2) xs) = (sum_list xs :: real) / 2"
  by (induction xs) (auto simp: field_simps)

lemma halve_nth:
  "i < length P \<Longrightarrow>
   halve_interior P ! i =
     (if 1 \<le> i \<and> i + 1 < length P then map (\<lambda>x. x / 2) (P ! i) else P ! i)"
  by (simp add: halve_interior_def nth_enumerate_eq)

lemma length_halve: "length (halve_interior P) = length P"
  by (simp add: halve_interior_def)

lemma row_ok_add: "row_ok c s r \<Longrightarrow> row_ok c t q \<Longrightarrow> row_ok c (s + t) (map2 (+) r q)"
  by (simp add: row_ok_def sum_list_map2_add)

lemma row_ok_scale: "0 \<le> x \<Longrightarrow> row_ok c s r \<Longrightarrow> row_ok c (x * s) (map ((*) x) r)"
  by (simp add: row_ok_def sum_list_scale)

lemma row_ok_half: "row_ok c s r \<Longrightarrow> row_ok c (s / 2) (map (\<lambda>x. x / 2) r)"
  by (simp add: row_ok_def sum_list_half)

lemma row_ok_append: "row_ok a s r \<Longrightarrow> row_ok b t q \<Longrightarrow> row_ok (a + b) (s + t) (r @ q)"
  by (auto simp add: row_ok_def nth_append)

lemma row_ok_zero: "row_ok n 0 (replicate n 0)"
  by (simp add: row_ok_def sum_list_replicate)

lemma row_ok_pad_right: "row_ok n s r \<Longrightarrow> row_ok (Suc n) s (r @ [0])"
  using row_ok_append [of n s r 1 0 "[0]"] by (simp add: row_ok_def)

lemma row_ok_pad_left: "row_ok n s r \<Longrightarrow> row_ok (Suc n) s ([0] @ r)"
  using row_ok_append [of 1 0 "[0]" n s r] by (simp add: row_ok_def)

lemma row_ok_zero_Suc: "row_ok (Suc n) 0 (replicate n 0 @ [0])" "row_ok (Suc n) 0 ([0] @ replicate n 0)"
  using row_ok_pad_right [OF row_ok_zero [of n]] row_ok_pad_left [OF row_ok_zero [of n]] by simp_all

lemma rows_ok_smul: "0 \<le> x \<Longrightarrow> rows_ok n s M \<Longrightarrow> rows_ok n (\<lambda>i. x * s i) (smul x M)"
  by (simp add: rows_ok_def smul_nth row_ok_scale length_smul)

lemma rows_ok_madd:
  "rows_ok n s M \<Longrightarrow> rows_ok n t K \<Longrightarrow> rows_ok n (\<lambda>i. s i + t i) (madd M K)"
  by (simp add: rows_ok_def madd_nth row_ok_add length_madd)

lemma rows_ok_block_right:
  assumes "rows_ok n (\<lambda>i. 1) P"
  shows "rows_ok (Suc n) (\<lambda>i. if i < n then 1 else 0) (block P (zeros n 1) (zeros 1 n) (zeros 1 1))"
  unfolding rows_ok_def
proof (intro conjI allI impI)
  have l: "length P = n" using assms by (simp add: rows_ok_def)
  show "length (block P (zeros n 1) (zeros 1 n) (zeros 1 1)) = Suc n"
    by (simp add: length_block length_zeros l)
  fix i assume i: "i < Suc n"
  show "row_ok (Suc n) (if i < n then 1 else 0) (block P (zeros n 1) (zeros 1 n) (zeros 1 1) ! i)"
  proof (cases "i < n")
    case True
    have "row_ok n 1 (P ! i)" using assms True by (simp add: rows_ok_def)
    then show ?thesis
      using True block_top [OF l length_zeros True, of 1] row_ok_pad_right
      by (simp add: zeros_nth)
  next
    case False
    then have e: "i = n + 0" using i by simp
    show ?thesis
      using False block_bot [OF l length_zeros length_zeros length_zeros, of 0 1 1 n 1]
        row_ok_zero_Suc(1) [of n]
      by (simp add: zeros_nth e)
  qed
qed


lemma rows_ok_block_left:
  assumes "rows_ok n (\<lambda>i. 1) P"
  shows "rows_ok (Suc n) (\<lambda>i. if i < n then 1 else 0) (block (zeros n 1) P (zeros 1 n) (zeros 1 1))"
  unfolding rows_ok_def
proof (intro conjI allI impI)
  have l: "length P = n" using assms by (simp add: rows_ok_def)
  show "length (block (zeros n 1) P (zeros 1 n) (zeros 1 1)) = Suc n"
    by (simp add: length_block length_zeros l)
  fix i assume i: "i < Suc n"
  show "row_ok (Suc n) (if i < n then 1 else 0) (block (zeros n 1) P (zeros 1 n) (zeros 1 1) ! i)"
  proof (cases "i < n")
    case True
    have "row_ok n 1 (P ! i)" using assms True by (simp add: rows_ok_def)
    then show ?thesis
      using True block_top [OF length_zeros l True, of 1] row_ok_pad_left
      by (simp add: zeros_nth)
  next
    case False
    then have e: "i = n + 0" using i by simp
    show ?thesis
      using False block_bot [OF length_zeros l length_zeros length_zeros, of 0 1 1 n 1]
        row_ok_zero_Suc(1) [of n]
      by (simp add: zeros_nth e)
  qed
qed

lemma rows_ok_block_down_right:
  assumes "rows_ok n (\<lambda>i. 1) P"
  shows "rows_ok (Suc n) (\<lambda>i. if i = 0 then 0 else 1) (block (zeros 1 1) (zeros 1 n) P (zeros n 1))"
  unfolding rows_ok_def
proof (intro conjI allI impI)
  have l: "length P = n" using assms by (simp add: rows_ok_def)
  show "length (block (zeros 1 1) (zeros 1 n) P (zeros n 1)) = Suc n"
    by (simp add: length_block length_zeros l)
  fix i assume i: "i < Suc n"
  show "row_ok (Suc n) (if i = 0 then 0 else 1) (block (zeros 1 1) (zeros 1 n) P (zeros n 1) ! i)"
  proof (cases i)
    case 0
    show ?thesis
      using block_top [OF length_zeros length_zeros, of 0 1 1 n P "zeros n 1"]
        row_ok_zero_Suc(2) [of n]
      by (simp add: zeros_nth 0)
  next
    case (Suc j)
    then have j: "j < n" using i by simp
    have "row_ok n 1 (P ! j)" using assms j by (simp add: rows_ok_def)
    then show ?thesis
      using block_bot [OF length_zeros length_zeros l length_zeros j, of 1 1 n 1] row_ok_pad_right
      by (simp add: zeros_nth Suc j)
  qed
qed

lemma rows_ok_block_down_left:
  assumes "rows_ok n (\<lambda>i. 1) P"
  shows "rows_ok (Suc n) (\<lambda>i. if i = 0 then 0 else 1) (block (zeros 1 1) (zeros 1 n) (zeros n 1) P)"
  unfolding rows_ok_def
proof (intro conjI allI impI)
  have l: "length P = n" using assms by (simp add: rows_ok_def)
  show "length (block (zeros 1 1) (zeros 1 n) (zeros n 1) P) = Suc n"
    by (simp add: length_block length_zeros l)
  fix i assume i: "i < Suc n"
  show "row_ok (Suc n) (if i = 0 then 0 else 1) (block (zeros 1 1) (zeros 1 n) (zeros n 1) P ! i)"
  proof (cases i)
    case 0
    show ?thesis
      using block_top [OF length_zeros length_zeros, of 0 1 1 n "zeros n 1" P]
        row_ok_zero_Suc(2) [of n]
      by (simp add: zeros_nth 0)
  next
    case (Suc j)
    then have j: "j < n" using i by simp
    have "row_ok n 1 (P ! j)" using assms j by (simp add: rows_ok_def)
    then show ?thesis
      using block_bot [OF length_zeros length_zeros length_zeros l j, of 1 1 n 1] row_ok_pad_left
      by (simp add: zeros_nth Suc j)
  qed
qed

lemma rows_ok_blocks:
  assumes P: "rows_ok n (\<lambda>i. 1) P" and p: "0 \<le> p" "p \<le> 1" and n: "0 < n"
  shows "rows_ok (Suc n) (\<lambda>i. if i = 0 \<or> i = n then 1 else 2) (rouwenhorst_blocks p P n)"
proof -
  have q: "0 \<le> 1 - p" using p by simp
  have "rows_ok (Suc n)
          (\<lambda>i. p * (if i < n then 1 else 0) + (1 - p) * (if i < n then 1 else 0)
                + (1 - p) * (if i = 0 then 0 else 1) + p * (if i = 0 then 0 else 1))
          (rouwenhorst_blocks p P n)"
    unfolding rouwenhorst_blocks_def
    by (intro rows_ok_madd rows_ok_smul p q rows_ok_block_right rows_ok_block_left
          rows_ok_block_down_right rows_ok_block_down_left P)
  moreover have "\<And>i. i < Suc n \<Longrightarrow>
      p * (if i < n then 1 else 0) + (1 - p) * (if i < n then 1 else 0)
        + (1 - p) * (if i = 0 then 0 else 1) + p * (if i = 0 then 0 else 1)
      = (if i = 0 \<or> i = n then 1 else 2)"
    using n by (auto simp add: less_Suc_eq)
  ultimately show ?thesis
    unfolding rows_ok_def by simp
qed

lemma rows_ok_step:
  assumes P: "rows_ok n (\<lambda>i. 1) P" and p: "0 \<le> p" "p \<le> 1" and n: "0 < n"
  shows "rows_ok (Suc n) (\<lambda>i. 1) (halve_interior (rouwenhorst_blocks p P n))"
proof -
  let ?M = "rouwenhorst_blocks p P n"
  have M: "rows_ok (Suc n) (\<lambda>i. if i = 0 \<or> i = n then 1 else 2) ?M"
    by (rule rows_ok_blocks [OF P p n])
  then have l: "length ?M = Suc n" by (simp add: rows_ok_def)
  show ?thesis
    unfolding rows_ok_def
  proof (intro conjI allI impI)
    show "length (halve_interior ?M) = Suc n" by (simp add: length_halve l)
    fix i assume i: "i < Suc n"
    have r: "row_ok (Suc n) (if i = 0 \<or> i = n then 1 else 2) (?M ! i)"
      using M i by (simp add: rows_ok_def)
    show "row_ok (Suc n) 1 (halve_interior ?M ! i)"
    proof (cases "1 \<le> i \<and> i + 1 < Suc n")
      case True
      then have "row_ok (Suc n) 2 (?M ! i)" using r by simp
      from row_ok_half [OF this] show ?thesis using True i by (simp add: halve_nth l)
    next
      case False
      then have "i = 0 \<or> i = n" using i by auto
      then show ?thesis using r False i by (auto simp add: halve_nth l)
    qed
  qed
qed

lemma rouwenhorst_base: "rouwenhorst 2 p = Inr [[p, 1 - p], [1 - p, p]]"
  by (subst rouwenhorst.simps) simp

lemma rows_ok_base: "0 \<le> p \<Longrightarrow> p \<le> 1 \<Longrightarrow> rows_ok 2 (\<lambda>i. 1) [[p, 1 - p], [1 - p, p]]"
  by (auto simp add: rows_ok_def row_ok_def less_Suc_eq numeral_2_eq_2 nth_Cons')

lemma rouwenhorst_rows_ok:
  assumes p: "0 \<le> p" "p \<le> 1"
  shows "2 \<le> N \<Longrightarrow> \<exists>P. rouwenhorst N p = Inr P \<and> rows_ok (nat N) (\<lambda>i. 1) P"
proof (induction N rule: int_ge_induct)
  case base
  show ?case using rows_ok_base [OF p] by (simp add: rouwenhorst_base)
next
  case (step i)
  then obtain P where P: "rouwenhorst i p = Inr P" "rows_ok (nat i) (\<lambda>i. 1) P" by blast
  have "rouwenhorst (i + 1) p = Inr (halve_interior (rouwenhorst_blocks p P (nat i)))"
    using step.hyps P(1) by (subst rouwenhorst.simps) simp
  moreover have "nat (i + 1) = Suc (nat i)" using step.hyps by simp
  moreover have "0 < nat i" using step.hyps by simp
  ultimately show ?case using rows_ok_step [OF P(2) p] by simp
qed

text \<open>
  Claim C3. For every number of states \<open>N \<ge> 2\<close> and every \<open>p\<close> in [0, 1],
  \<open>rouwenhorst N p\<close> returns an \<open>N \<times> N\<close> matrix in which every row sums to 1 and no
  entry is negative; and for \<open>N = 2\<close> the result is exactly the base case
  \<open>[[p, 1 - p], [1 - p, p]]\<close>.
\<close>

theorem rouwenhorst_row_stochastic:
  assumes "2 \<le> N" and "0 \<le> p" and "p \<le> 1"
  shows "(\<exists>P. rouwenhorst N p = Inr P \<and> length P = nat N \<and>
            (\<forall>row \<in> set P. length row = nat N \<and> sum_list row = 1 \<and> (\<forall>x \<in> set row. 0 \<le> x)))
         \<and> rouwenhorst 2 p = Inr [[p, 1 - p], [1 - p, p]]"
proof -
  obtain P where P: "rouwenhorst N p = Inr P" "rows_ok (nat N) (\<lambda>i. 1) P"
    using rouwenhorst_rows_ok [OF assms(2,3,1)] by blast
  have "length row = nat N \<and> sum_list row = 1 \<and> (\<forall>x \<in> set row. 0 \<le> x)" if "row \<in> set P" for row
  proof -
    from that obtain i where i: "i < length P" "P ! i = row"
      by (auto simp add: in_set_conv_nth)
    then have "row_ok (nat N) 1 row" using P(2) by (auto simp add: rows_ok_def)
    then show ?thesis by (auto simp add: row_ok_def in_set_conv_nth)
  qed
  then show ?thesis
    using P by (auto simp add: rows_ok_def rouwenhorst_base)
qed

theorem rouwenhorst_row_stochastic_witness:
  "(2::int) \<le> 3 \<and> (0::real) \<le> 1 / 2 \<and> (1 / 2 :: real) \<le> 1
   \<and> rouwenhorst 3 (1 / 2) = Inr [[1 / 4, 1 / 2, 1 / 4], [1 / 4, 1 / 2, 1 / 4], [1 / 4, 1 / 2, 1 / 4]]
   \<and> (\<exists>P. rouwenhorst 3 (1 / 2) = Inr P \<and> length P = nat 3 \<and>
            (\<forall>row \<in> set P. length row = nat 3 \<and> sum_list row = 1 \<and> (\<forall>x \<in> set row. 0 \<le> x)))
   \<and> rouwenhorst 2 (1 / 2) = Inr [[1 / 2, 1 - 1 / 2], [1 - 1 / 2, 1 / 2]]"
proof -
  have e: "rouwenhorst 3 (1 / 2) = Inr [[1 / 4, 1 / 2, 1 / 4], [1 / 4, 1 / 2, 1 / 4], [1 / 4, 1 / 2, 1 / 4]]"
    by (simp add: rouwenhorst.simps [of 3] rouwenhorst.simps [of 2] rouwenhorst_blocks_def
        madd_def smul_def block_def hstack_def zeros_def halve_interior_def enumerate_eq_zip
        upt_rec eval_nat_numeral)
  have h: "(2::int) \<le> 3" "(0::real) \<le> 1 / 2" "(1 / 2 :: real) \<le> 1" by simp_all
  from rouwenhorst_row_stochastic [OF h] e h show ?thesis by blast
qed

section \<open>Tauchen: row sums and the output check\<close>

lemma length_linspace: "length (fst (linspace a b num)) = num"
  by (simp add: linspace_def Let_def)


lemma linspace_nth:
  assumes "1 < num" "i < num"
  shows "fst (linspace a b num) ! i = a + real i * ((b - a) / real (num - 1))"
proof -
  have "real (num - 1) \<noteq> 0" using assms by simp
  then have "a + real (num - 1) * ((b - a) / real (num - 1)) = b" by simp
  then show ?thesis
    using assms by (auto simp add: linspace_def Let_def nth_list_update)
qed




lemma length_tauchen_pmat: "length (tauchen_pmat Phi mu rho sigma N y d) = N"
  by (simp add: tauchen_pmat_def)

lemma length_tauchen_pmat_row: "j < N \<Longrightarrow> length (tauchen_pmat Phi mu rho sigma N y d ! j) = N"
  by (simp add: tauchen_pmat_def)











section \<open>The script ps1\_3cd.py: the grid, the chain and the run\<close>

lemma sum_take_last: "p \<noteq> [] \<Longrightarrow> last (cumsum p) = sum_list p"
  by (simp add: cumsum_def last_map last_upt Suc_pred' del: upt_Suc) 

lemma choice_p_lt:
  assumes r: "row_ok N 1 p" and N: "0 < N" and u: "u < 1"
  shows "\<exists>s. choice_p N p u = Inr s \<and> s < N"
proof -
  have l: "length p = N" and s: "sum_list p = 1" and nn: "\<forall>k<N. 0 \<le> p ! k"
    using r by (simp_all add: row_ok_def)
  have ne: "p \<noteq> []" using l N by auto
  have nneg: "\<not> (\<exists>x \<in> set p. x < 0)"
    using nn l by (auto simp add: in_set_conv_nth not_less)
  have lc: "length (cumsum p) = N" by (simp add: cumsum_def l)
  have cne: "cumsum p \<noteq> []" using lc N by auto
  have la: "last (cumsum p) = 1" using sum_take_last [OF ne] s by simp
  have "last (cumsum p) \<in> set (cumsum p)" using cne by simp
  then have "\<exists>c \<in> set (cumsum p). \<not> c \<le> u" using la u by force
  then have "length (filter (\<lambda>c. c \<le> u) (cumsum p)) < length (cumsum p)"
    by (auto intro: length_filter_less)
  then show ?thesis
    using l N nneg s la lc by (simp add: choice_p_def searchsorted_right_def)
qed

lemma chain_states_ok:
  assumes P: "rows_ok N (\<lambda>i. 1) P" and N: "0 < N" and us: "\<forall>t. us t < 1"
  shows "\<exists>states. chain_states N P us t = Inr states \<and> length states = Suc t
           \<and> hd states = 0 \<and> (\<forall>s \<in> set states. s < N)"
proof (induction t)
  case 0
  show ?case using N by simp
next
  case (Suc t)
  then obtain states where st: "chain_states N P us t = Inr states" "length states = Suc t"
      "hd states = 0" "\<forall>s \<in> set states. s < N" by blast
  have ne: "states \<noteq> []" using st(2) by auto
  then have la: "last states < N" using st(4) by simp
  then have "row_ok N 1 (P ! last states)" using P by (simp add: rows_ok_def)
  from choice_p_lt [OF this N us [rule_format]] obtain s where
    s: "choice_p N (P ! last states) (us (Suc t)) = Inr s" "s < N" by blast
  have "length P = N" using P by (simp add: rows_ok_def)
  then have "\<not> length P \<le> last states" using la by simp
  then have "chain_states N P us (Suc t) = Inr (states @ [s])"
    by (simp add: st(1) s(1))
  moreover have "hd (states @ [s]) = 0" using ne st(3) by simp
  ultimately show ?case using st(2,4) s(2) by auto
qed


lemma y_085_nth:
  assumes "k < 7"
  shows "y_085 ! k = (10 / 3 - sqrt (800 / 37)) + real k * (sqrt (800 / 37) / 3)"
proof -
  have "(1::real) - (85 / 100)\<^sup>2 = 111 / 400" by (simp add: power2_eq_square)
  then have "sqrt 6 * (1 / sqrt (1 - (85 / 100)\<^sup>2)) = sqrt 6 / sqrt (111 / 400)" by simp
  also have "\<dots> = sqrt (6 / (111 / 400))" by (simp only: real_sqrt_divide)
  also have "\<dots> = sqrt (800 / 37)" by simp
  finally have cs: "sqrt 6 * (1 / sqrt (1 - (85 / 100)\<^sup>2)) = sqrt (800 / 37)" .
  have "y_085 ! k = (5 / 10 / (1 - 85 / 100) - sqrt 6 * (1 / sqrt (1 - (85 / 100)\<^sup>2)))
      + real k * (((5 / 10 / (1 - 85 / 100) + sqrt 6 * (1 / sqrt (1 - (85 / 100)\<^sup>2)))
                  - (5 / 10 / (1 - 85 / 100) - sqrt 6 * (1 / sqrt (1 - (85 / 100)\<^sup>2)))) / real (7 - 1))"
    using assms linspace_nth [of 7 k] by (simp add: y_085_def state_space_def Let_def)
  also have "\<dots> = (10 / 3 - sqrt (800 / 37)) + real k * (sqrt (800 / 37) / 3)"
    unfolding cs by simp
  finally show ?thesis .
qed

lemma length_y_085: "length y_085 = 7"
  by (simp add: y_085_def state_space_def Let_def length_linspace)

lemma sqrt_800_37: "4649 / 1000 < sqrt (800 / 37)" "sqrt (800 / 37) < 4651 / 1000"
proof -
  show "4649 / 1000 < sqrt (800 / 37)"
    by (rule real_less_rsqrt) (simp add: power2_eq_square)
  show "sqrt (800 / 37) < 4651 / 1000"
    by (rule real_less_lsqrt) (simp_all add: power2_eq_square)
qed

lemma y_085_first: "- 1325 / 1000 < y_085 ! 0" "y_085 ! 0 < - 1315 / 1000"
  using sqrt_800_37 y_085_nth [of 0] by simp_all

lemma y_085_round: "round (100 * (y_085 ! 0)) = - 132"
  unfolding round_def using y_085_first by (intro floor_unique) simp_all

lemma y_085_bounds:
  assumes "k < 7"
  shows "y_085 ! 0 \<le> y_085 ! k" "y_085 ! k \<le> y_085 ! 6"
proof -
  have p: "0 \<le> sqrt (800 / 37) / 3" by simp
  have "0 \<le> real k * (sqrt (800 / 37) / 3)" using p by simp
  then show "y_085 ! 0 \<le> y_085 ! k" using y_085_nth [OF assms] y_085_nth [of 0] by simp
  have "real k \<le> 6" using assms by simp
  then have "real k * (sqrt (800 / 37) / 3) \<le> 6 * (sqrt (800 / 37) / 3)"
    using p by (rule mult_right_mono)
  then show "y_085 ! k \<le> y_085 ! 6" using y_085_nth [OF assms] y_085_nth [of 6] by simp
qed

lemma P_085_rows_ok: "\<exists>P. P_085 = Inr P \<and> rows_ok 7 (\<lambda>i. 1) P"
  using rouwenhorst_rows_ok [where p = "(1 + 85 / 100) / 2" and N = 7] by (simp add: P_085_def)

text \<open>
  Claim C8. With \<open>N = 7\<close>, persistence 0.85, innovation standard deviation 1 and
  intercept 0.5 the first grid value of the script rounds to -1.32 at two decimals, and
  whatever uniform numbers in [0, 1) are drawn, the 50-period chain that starts in the
  first state under the Rouwenhorst matrix of the script is returned, starts at the
  first grid value and stays between the first and the last grid value at every step.
\<close>

theorem fixed_start_chain_within_grid:
  assumes "\<forall>t. 0 \<le> us t \<and> us t < 1"
  shows "round (100 * (y_085 ! 0)) = - 132 \<and> - 1325 / 1000 < y_085 ! 0 \<and> y_085 ! 0 < - 1315 / 1000
         \<and> (\<exists>P path. P_085 = Inr P
              \<and> simulate_markov_chain_fixed_start y_085 P 50 us = Inr path
              \<and> length path = 50 \<and> path ! 0 = y_085 ! 0
              \<and> (\<forall>v \<in> set path. y_085 ! 0 \<le> v \<and> v \<le> y_085 ! 6))"
proof -
  obtain P where P: "P_085 = Inr P" "rows_ok 7 (\<lambda>i. 1) P" using P_085_rows_ok by blast
  have us: "\<forall>t. us t < 1" using assms by simp
  obtain states where st: "chain_states 7 P us 49 = Inr states" "length states = 50"
      "hd states = 0" "\<forall>s \<in> set states. s < 7"
    using chain_states_ok [where N = 7 and P = P and us = us and t = 49] P(2) us by auto
  define path where "path = map (\<lambda>s. y_085 ! s) states"
  have "\<not> (\<exists>s \<in> set states. length y_085 \<le> s)" using st(4) by (auto simp add: length_y_085)
  then have sim: "simulate_markov_chain_fixed_start y_085 P 50 us = Inr path"
    by (simp add: simulate_markov_chain_fixed_start_def length_y_085 st(1) path_def)
  have ne: "states \<noteq> []" using st(2) by auto
  have p0: "path ! 0 = y_085 ! 0" using st(2,3) ne by (simp add: path_def hd_conv_nth)
  have "\<forall>v \<in> set path. y_085 ! 0 \<le> v \<and> v \<le> y_085 ! 6"
    using st(4) y_085_bounds by (auto simp add: path_def)
  then show ?thesis
    using P(1) sim p0 st(2) y_085_round y_085_first by (auto simp add: path_def)
qed

theorem fixed_start_chain_within_grid_witness:
  "(\<forall>t::nat. (0::real) \<le> 1 / 2 \<and> (1 / 2 :: real) < 1)
   \<and> round (100 * (y_085 ! 0)) = - 132
   \<and> (\<exists>P path. P_085 = Inr P
        \<and> simulate_markov_chain_fixed_start y_085 P 50 (\<lambda>t. 1 / 2) = Inr path
        \<and> length path = 50 \<and> path ! 0 = y_085 ! 0
        \<and> (\<forall>v \<in> set path. y_085 ! 0 \<le> v \<and> v \<le> y_085 ! 6))"
  using fixed_start_chain_within_grid [of "\<lambda>t. 1 / 2"] by simp

text \<open>
  Claim C10. Run from the top, the script stops with a NameError for
  \<open>simulate_markov_chain_fixed_start\<close> at line 65: the 25 statements before it run, none
  of them produces simulation output, the only \<^verbatim>\<open>def\<close> of the simulator is at line 89,
  and no statement of the file binds \<open>gamma_values\<close>.
\<close>

theorem script_3cd_stops_before_simulation:
  "map line (fst (run_module builtins script_3cd)) =
     [8, 9, 10, 13, 34, 35, 36, 37, 38, 39, 42, 45, 46, 49, 50, 51, 53, 54, 55, 56, 57, 58, 60, 61, 64]
   \<and> snd (run_module builtins script_3cd) = Some (NameError ''simulate_markov_chain_fixed_start'')
   \<and> filter sim_output (fst (run_module builtins script_3cd)) = []
   \<and> map line (filter (\<lambda>s. ''simulate_markov_chain_fixed_start'' \<in> set (binds s)) script_3cd) = [89]
   \<and> filter (\<lambda>s. ''gamma_values'' \<in> set (binds s)) script_3cd = []"
  by (simp add: script_3cd_def builtins_def)

section \<open>The solver: the loop and the policy tables\<close>






















subsection \<open>An economy in which no capital choice can be paid for\<close>












section \<open>The loop of the solver stops\<close>




section \<open>The simulator: what a path is made of\<close>














section \<open>Consumption, investment and output\<close>









lemma infeasible_cell:
  assumes "a < 100" "100 \<le> i"
  shows "fadd (clamp0 (fsub (Fin a) (Fin i))) (Fin i) \<noteq> Fin a"
  using assms by (simp add: clamp0_def fsub_def)




subsection \<open>The capital policy stays on the grid\<close>


lemma linspace_distinct:
  assumes "1 < num" "a < b"
  shows "distinct (fst (linspace a b num))"
proof -
  have s: "0 < (b - a) / real (num - 1)" using assms by simp
  show ?thesis
    unfolding distinct_conv_nth length_linspace
  proof (intro allI impI)
    fix i j assume "i < num" "j < num" "i \<noteq> j"
    then have "real i * ((b - a) / real (num - 1)) \<noteq> real j * ((b - a) / real (num - 1))"
      using s assms(2) by simp
    then show "fst (linspace a b num) ! i \<noteq> fst (linspace a b num) ! j"
      using linspace_nth [OF assms(1) \<open>i < num\<close>] linspace_nth [OF assms(1) \<open>j < num\<close>] by simp
  qed
qed

lemma tauchen_Inr_shape:
  assumes "tauchen Phi mu rho sigma N m = Inr (y, P)"
  shows "length y = N \<and> length P = N \<and> (\<forall>j < N. length (P ! j) = N)"
proof -
  have N: "N \<noteq> 0" using assms by (auto simp add: tauchen_def split: if_splits)
  obtain y' d where g: "tauchen_grid mu rho sigma N m = (y', d)"
    by (cases "tauchen_grid mu rho sigma N m")
  have "tauchen_output y' (tauchen_pmat Phi mu rho sigma N y' d) = Inr (y, P)"
    using assms N by (simp add: tauchen_def g)
  then have e: "y = y'" "P = tauchen_pmat Phi mu rho sigma N y' d"
    by (auto simp add: tauchen_output_def split: if_splits)
  have "y' = fst (tauchen_grid mu rho sigma N m)" by (simp add: g)
  then have "length y' = N"
    by (simp add: tauchen_grid_def Let_def length_linspace)
  then show ?thesis
    by (simp add: e length_tauchen_pmat length_tauchen_pmat_row)
qed

lemma planner_setup_wf:
  assumes "planner_setup Phi P0 = Inr P"
  shows "wf_par P"
proof -
  have a: "asserts_ok P0" using assms by (auto simp add: planner_setup_def split: if_splits)
  then obtain Agrid pmat where
    t: "tauchen Phi (par_mu P0) (par_rho P0) (par_sigma_eps P0) (par_Alen P0) (par_m P0) = Inr (Agrid, pmat)"
    and P: "P = P0\<lparr>par_kgrid := fst (linspace (par_kmin P0) (par_kmax P0) (par_klen P0)),
                     par_Agrid := map exp Agrid, par_pmat := pmat\<rparr>"
    using assms by (auto simp add: planner_setup_def split: sum.splits)
  have d: "distinct (fst (linspace (par_kmin P0) (par_kmax P0) (par_klen P0)))"
    using a by (intro linspace_distinct) (simp_all add: asserts_ok_def)
  show ?thesis
    using a d tauchen_Inr_shape [OF t]
    by (simp add: wf_par_def P asserts_ok_def length_linspace)
qed




end
